theory Spec2Isabelle
  imports Complex_Main
begin

section \<open>Passive photonic components of dphox (\<^verbatim>\<open>dphox/passive.py\<close>)\<close>

text \<open>
  The module builds directional couplers, crossings, arrays, gratings and tap couplers
  out of the geometry classes \<^verbatim>\<open>Pattern\<close>, \<^verbatim>\<open>Port\<close> and
  \<^verbatim>\<open>Device\<close> and the curve generators of \<^verbatim>\<open>parametric\<close>.  Python floats
  are read as real numbers.  An exception is a value \<open>Inl e\<close> of the result type
  \<open>error + 'a\<close>.
\<close>

subsection \<open>Errors and points\<close>

datatype error =
    AttributeError string
  | KeyError string
  | IndexError
  | TypeError
  | ValueError

type_synonym point = "real \<times> real"

type_synonym polygon = "point list"

definition vadd :: "point \<Rightarrow> point \<Rightarrow> point" where
  "vadd p q = (fst p + fst q, snd p + snd q)"

definition vsub :: "point \<Rightarrow> point \<Rightarrow> point" where
  "vsub p q = (fst p - fst q, snd p - snd q)"

definition vdiv :: "point \<Rightarrow> real \<Rightarrow> point" where
  "vdiv p c = (fst p / c, snd p / c)"

subsection \<open>Port and Pattern\<close>

text \<open>
  Modelled from the spec: \<^verbatim>\<open>Port\<close> is declared in \<^verbatim>\<open>pattern.py\<close>.  A port is a
  position (x, y), an orientation angle in degrees (0 pointing in +x) and a width.
\<close>

record Port =
  port_x :: real
  port_y :: real
  port_a :: real
  port_w :: real

text \<open>
  Modelled from the spec: the constructor \<^verbatim>\<open>Port(x, y, a, w=...)\<close>; a port built
  without an orientation points in +x, the direction opposite to the reversed (180
  degree) ports at the left ends.
\<close>

definition Port_init :: "real \<Rightarrow> real \<Rightarrow> real \<Rightarrow> real \<Rightarrow> Port" where
  "Port_init px py pa pw = \<lparr>port_x = px, port_y = py, port_a = pa, port_w = pw\<rparr>"

definition Port_default_a :: real where
  "Port_default_a = 0"

text \<open>
  Modelled from the spec: \<^verbatim>\<open>Pattern\<close> is declared in \<^verbatim>\<open>pattern.py\<close>.  A pattern
  owns a list of polygonal regions, in the order in which they were combined, and a
  mapping from port names to ports.
\<close>

record Pattern =
  polygons :: "polygon list"
  port :: "string \<rightharpoonup> Port"

text \<open>
  Modelled from the spec: \<^verbatim>\<open>Pattern.__init__(*patterns)\<close> flattens the polygons of
  its arguments in the order given; ports are not merged automatically, every composite
  re-exposes the ports it chooses.
\<close>

definition Pattern_init :: "Pattern list \<Rightarrow> Pattern" where
  "Pattern_init ps = \<lparr>polygons = concat (map polygons ps), port = Map.empty\<rparr>"

text \<open>
  Modelled from the spec: \<^verbatim>\<open>translate(dx, dy)\<close> moves every owned polygon and the
  position of every port, and leaves orientations, widths, the polygon count and the
  port names alone.
\<close>

definition move_port :: "real \<Rightarrow> real \<Rightarrow> Port \<Rightarrow> Port" where
  "move_port dx dy q = q\<lparr>port_x := port_x q + dx, port_y := port_y q + dy\<rparr>"

definition translate :: "real \<Rightarrow> real \<Rightarrow> 'a Pattern_scheme \<Rightarrow> 'a Pattern_scheme" where
  "translate dx dy p =
     p\<lparr>polygons := map (map (\<lambda>xy. (fst xy + dx, snd xy + dy))) (polygons p),
       port := map_option (move_port dx dy) \<circ> port p\<rparr>"

text \<open>
  Modelled from the spec: \<^verbatim>\<open>size\<close> is the extent of the bounding box of all the
  polygons.  A pattern without a single point has no bounding box; the query fails.
\<close>

fun bounds_of :: "point list \<Rightarrow> (real \<times> real \<times> real \<times> real) option" where
  "bounds_of [] = None"
| "bounds_of (p # ps) =
     (case bounds_of ps of
        None \<Rightarrow> Some (fst p, snd p, fst p, snd p)
      | Some (x0, y0, x1, y1) \<Rightarrow>
          Some (min (fst p) x0, min (snd p) y0, max (fst p) x1, max (snd p) y1))"

definition bounds :: "'a Pattern_scheme \<Rightarrow> (real \<times> real \<times> real \<times> real) option" where
  "bounds p = bounds_of (concat (polygons p))"

definition size_of :: "'a Pattern_scheme \<Rightarrow> error + point" where
  "size_of p =
     (case bounds p of
        None \<Rightarrow> Inl ValueError
      | Some (x0, y0, x1, y1) \<Rightarrow> Inr (x1 - x0, y1 - y0))"

subsection \<open>DC, the directional coupler\<close>

text \<open>
  The dataclass \<^verbatim>\<open>DC(Pattern)\<close>: the nine declared fields, the polygons and ports it
  inherits, and the attributes \<^verbatim>\<open>lower_path\<close>, \<^verbatim>\<open>upper_path\<close> and
  \<^verbatim>\<open>refs\<close> its constructor sets.
\<close>

record DC = Pattern +
  waveguide_w :: real
  bend_radius :: real
  interport_distance :: real
  gap_w :: real
  interaction_l :: real
  euler :: real
  end_l :: real
  coupler_waveguide_w :: "real option"
  use_radius :: bool
  lower_path :: Pattern
  upper_path :: Pattern
  refs :: "Pattern list"

text \<open>
  The generated \<^verbatim>\<open>__init__\<close> stores the nine fields; nothing else is set before
  \<^verbatim>\<open>__post_init__\<close> runs.  The attributes that do not exist yet are held empty here;
  \<^verbatim>\<open>__post_init__\<close> writes each of them before it reads it.
\<close>

definition empty_Pattern :: Pattern where
  "empty_Pattern = \<lparr>polygons = [], port = Map.empty\<rparr>"

definition DC_fields ::
  "real \<Rightarrow> real \<Rightarrow> real \<Rightarrow> real \<Rightarrow> real \<Rightarrow> real \<Rightarrow> real \<Rightarrow> real option \<Rightarrow> bool \<Rightarrow> DC" where
  "DC_fields ww br ipd gw il eu el cww ur =
     \<lparr>polygons = [], port = Map.empty,
      waveguide_w = ww, bend_radius = br, interport_distance = ipd, gap_w = gw,
      interaction_l = il, euler = eu, end_l = el, coupler_waveguide_w = cww,
      use_radius = ur,
      lower_path = empty_Pattern, upper_path = empty_Pattern, refs = []\<rparr>"

text \<open>
  The property \<^verbatim>\<open>DC.interaction_points\<close>.  \<^verbatim>\<open>center\<close> is a query of
  \<^verbatim>\<open>Pattern\<close>; its value is the parameter \<open>center\<close>.  The four rows of the stacked
  array are the four points of the list.
\<close>

definition interaction_points :: "point \<Rightarrow> DC \<Rightarrow> point list" where
  "interaction_points center self =
     (let bl = vsub center (vdiv (interaction_l self, waveguide_w self + gap_w self) 2);
          tl = vadd bl (0, waveguide_w self + gap_w self);
          br = vadd bl (interaction_l self, 0);
          tr = vadd tl (interaction_l self, 0)
      in [bl, tl, br, tr])"

section \<open>Verified properties\<close>

subsection \<open>The interaction rectangle of a coupler\<close>

text \<open>
  C10.  For a coupler with centre c, interaction length L, waveguide width w and gap g,
  \<^verbatim>\<open>interaction_points\<close> returns four points, in the order bottom-left, top-left,
  bottom-right, top-right: bottom-left is c - (L, w + g)/2, top-left is bottom-left
  + (0, w + g), bottom-right is bottom-left + (L, 0), top-right is top-left + (L, 0).
  They are the corners of the axis-aligned rectangle centred at c, of horizontal
  extent L and vertical extent w + g.
\<close>

theorem interaction_points_rectangle:
  fixes c :: point and d :: DC
  defines "L \<equiv> interaction_l d" and "h \<equiv> waveguide_w d + gap_w d"
  defines "bl \<equiv> (fst c - L / 2, snd c - h / 2)"
  shows "interaction_points c d =
           [bl, vadd bl (0, h), vadd bl (L, 0), vadd (vadd bl (0, h)) (L, 0)]
         \<and> interaction_points c d =
           [(fst c - L / 2, snd c - h / 2), (fst c - L / 2, snd c + h / 2),
            (fst c + L / 2, snd c - h / 2), (fst c + L / 2, snd c + h / 2)]
         \<and> length (interaction_points c d) = 4"
  by (simp add: interaction_points_def Let_def vadd_def vsub_def vdiv_def
      L_def h_def bl_def field_simps)

end
